theory Spec2Isabelle
  imports Complex_Main "HOL-Library.Multiset"
begin

section \<open>JavaScript numbers\<close>

text \<open>
  A JavaScript \<open>number\<close> is either a finite value, one of the two infinities, or NaN.
  Finite values are modelled as reals. Division by zero gives an infinity or NaN, a
  result that reaches the overflow threshold of binary64 becomes an infinity, NaN is
  carried through arithmetic, and every comparison with NaN is false. Rounding to 53
  bits, underflow and the sign of zero are not part of this model: below the overflow
  threshold a sum, product or quotient is the exact one. The general theorems below use
  only comparisons, NaN and infinity behaviour, or are conditional on the computed
  values, so they do not rest on that exactness; the sample runs use numbers on which
  double arithmetic gives the values stated.
\<close>

datatype jsnum = Fin real | PInf | NInf | NaN

text \<open>
  The overflow threshold of round-to-nearest: the largest double plus half a unit in its
  last place. A result of this magnitude or more is an infinity.
\<close>

definition overflowAt :: real where
  "overflowAt = 2 ^ 1024 - 2 ^ 970"

definition fin :: "real \<Rightarrow> jsnum" where
  "fin x = (if overflowAt \<le> x then PInf else if x \<le> - overflowAt then NInf else Fin x)"

fun is_Fin :: "jsnum \<Rightarrow> bool" where
  "is_Fin (Fin x) = True"
| "is_Fin _ = False"

fun real_of :: "jsnum \<Rightarrow> real" where
  "real_of (Fin x) = x"
| "real_of _ = 0"

fun jneg :: "jsnum \<Rightarrow> jsnum" where
  "jneg (Fin x) = Fin (- x)"
| "jneg PInf = NInf"
| "jneg NInf = PInf"
| "jneg NaN = NaN"

fun jadd :: "jsnum \<Rightarrow> jsnum \<Rightarrow> jsnum" where
  "jadd NaN b = NaN"
| "jadd a NaN = NaN"
| "jadd (Fin x) (Fin y) = fin (x + y)"
| "jadd PInf NInf = NaN"
| "jadd NInf PInf = NaN"
| "jadd PInf b = PInf"
| "jadd NInf b = NInf"
| "jadd (Fin x) b = b"

definition jsub :: "jsnum \<Rightarrow> jsnum \<Rightarrow> jsnum" where
  "jsub a b = jadd a (jneg b)"

fun jmul :: "jsnum \<Rightarrow> jsnum \<Rightarrow> jsnum" where
  "jmul NaN b = NaN"
| "jmul a NaN = NaN"
| "jmul (Fin x) (Fin y) = fin (x * y)"
| "jmul (Fin x) PInf = (if x = 0 then NaN else if 0 < x then PInf else NInf)"
| "jmul (Fin x) NInf = (if x = 0 then NaN else if 0 < x then NInf else PInf)"
| "jmul PInf (Fin y) = (if y = 0 then NaN else if 0 < y then PInf else NInf)"
| "jmul NInf (Fin y) = (if y = 0 then NaN else if 0 < y then NInf else PInf)"
| "jmul PInf PInf = PInf"
| "jmul PInf NInf = NInf"
| "jmul NInf PInf = NInf"
| "jmul NInf NInf = PInf"

text \<open>
  Division. A zero divisor is read as \<open>+0\<close>: the divisors of the detection code are
  array lengths and square roots, which are never \<open>-0\<close>.
\<close>

fun jdiv :: "jsnum \<Rightarrow> jsnum \<Rightarrow> jsnum" where
  "jdiv NaN b = NaN"
| "jdiv a NaN = NaN"
| "jdiv (Fin x) (Fin y) =
     (if y = 0 then (if x = 0 then NaN else if 0 < x then PInf else NInf)
      else fin (x / y))"
| "jdiv (Fin x) b = Fin 0"
| "jdiv PInf (Fin y) = (if 0 \<le> y then PInf else NInf)"
| "jdiv NInf (Fin y) = (if 0 \<le> y then NInf else PInf)"
| "jdiv a b = NaN"

text \<open>\<open>Math.sqrt\<close>, \<open>Math.abs\<close>, \<open>Math.cos\<close>, \<open>Math.sin\<close> and \<open>Math.pow(x, 2)\<close>.\<close>

fun jsqrt :: "jsnum \<Rightarrow> jsnum" where
  "jsqrt (Fin x) = (if x < 0 then NaN else Fin (sqrt x))"
| "jsqrt PInf = PInf"
| "jsqrt NInf = NaN"
| "jsqrt NaN = NaN"

fun jabs :: "jsnum \<Rightarrow> jsnum" where
  "jabs (Fin x) = Fin \<bar>x\<bar>"
| "jabs PInf = PInf"
| "jabs NInf = PInf"
| "jabs NaN = NaN"

fun jcos :: "jsnum \<Rightarrow> jsnum" where
  "jcos (Fin x) = Fin (cos x)"
| "jcos a = NaN"

fun jsin :: "jsnum \<Rightarrow> jsnum" where
  "jsin (Fin x) = Fin (sin x)"
| "jsin a = NaN"

definition jpow2 :: "jsnum \<Rightarrow> jsnum" where
  "jpow2 a = jmul a a"

text \<open>The comparisons \<open><\<close>, \<open>>\<close>, \<open><=\<close> and \<open>===\<close>.\<close>

fun jlt :: "jsnum \<Rightarrow> jsnum \<Rightarrow> bool" where
  "jlt (Fin x) (Fin y) = (x < y)"
| "jlt (Fin x) PInf = True"
| "jlt NInf (Fin y) = True"
| "jlt NInf PInf = True"
| "jlt a b = False"

definition jgt :: "jsnum \<Rightarrow> jsnum \<Rightarrow> bool" where
  "jgt a b = jlt b a"

definition jeq :: "jsnum \<Rightarrow> jsnum \<Rightarrow> bool" where
  "jeq a b = (a = b \<and> a \<noteq> NaN)"

definition jle :: "jsnum \<Rightarrow> jsnum \<Rightarrow> bool" where
  "jle a b = (jlt a b \<or> jeq a b)"

section \<open>Data model\<close>

text \<open>
  \<open>ClimateData\<close> is one parsed row. Its fields come from \<open>parseFloat\<close> and
  \<open>parseInt\<close>, so they are JavaScript numbers.
\<close>

record ClimateData =
  lat :: jsnum
  lon :: jsnum
  year :: jsnum
  month :: jsnum
  date :: jsnum
  ws10m :: jsnum
  wd10m :: jsnum
  qv2m :: jsnum
  prec :: jsnum

text \<open>
  The configuration is component state: it starts at the literals below and is only
  changed by the sliders and switches, so its numbers are finite. The sliders range over
  1.5 to 4.0 (threshold), 0.1 to 2.0 (radius) and 1 to 10 in steps of one (minimum
  neighbours); the record itself admits any value.
\<close>

record DetectionConfig =
  zScoreThreshold :: real
  madThreshold :: real
  spatialRadius :: real
  enableSeasonalDecomposition :: bool
  enableDirectionalConsistency :: bool
  minimumNeighbors :: int

definition initialConfig :: DetectionConfig where
  "initialConfig =
     \<lparr> zScoreThreshold = 2.5, madThreshold = 3.0, spatialRadius = 0.5,
       enableSeasonalDecomposition = True, enableDirectionalConsistency = True,
       minimumNeighbors = 3 \<rparr>"

text \<open>A row with its position, deviation score and flag (the objects built by the screener).\<close>

record ScoredPoint = ClimateData +
  index :: nat
  zScore :: jsnum
  isOutlier :: bool

text \<open>\<open>interface Anomaly extends ClimateData\<close>: the objects pushed by the detection loop.\<close>

record Anomaly = ScoredPoint +
  neighbors :: nat
  directionalConsistency :: "jsnum option"
  isDirectionallyCoherent :: "bool option"
  isTrueAnomaly :: bool
  confidence :: jsnum

record WindVector =
  u :: jsnum
  v :: jsnum

record Consistency =
  consistency :: jsnum
  isCoherent :: bool

section \<open>The detection functions\<close>

definition convertWindToVector :: "jsnum \<Rightarrow> jsnum \<Rightarrow> WindVector" where
  "convertWindToVector ws wd =
     (let radians = jdiv (jmul wd (Fin pi)) (Fin 180)
      in \<lparr> u = jmul ws (jcos radians), v = jmul ws (jsin radians) \<rparr>)"

text \<open>
  Where a source variable is called \<open>neighbors\<close> the model writes \<open>nbrs\<close>, since
  \<open>neighbors\<close> is also a field of the result objects.
\<close>

text \<open>
  The screener \<open>detectMagnitudeOutliers\<close>: its constants \<open>mean\<close> and \<open>std\<close> (two
  \<open>reduce\<close> calls) and the function it maps over the rows with their indices.
\<close>

definition precMean :: "ClimateData list \<Rightarrow> jsnum" where
  "precMean data =
     jdiv (foldl (\<lambda>sum d. jadd sum (prec d)) (Fin 0) data) (Fin (real (length data)))"

definition precStd :: "ClimateData list \<Rightarrow> jsnum" where
  "precStd data =
     jsqrt (jdiv (foldl (\<lambda>sum d. jadd sum (jpow2 (jsub (prec d) (precMean data)))) (Fin 0) data)
                 (Fin (real (length data))))"

definition scorePoint :: "DetectionConfig \<Rightarrow> jsnum \<Rightarrow> jsnum \<Rightarrow> nat \<times> ClimateData \<Rightarrow> ScoredPoint" where
  "scorePoint config mean std ip =
     (let point = snd ip;
          zScore = jdiv (jabs (jsub (prec point) mean)) std
      in ClimateData.extend point
           (ScoredPoint.fields (fst ip) zScore (jgt zScore (Fin (zScoreThreshold config)))))"

definition detectMagnitudeOutliers :: "DetectionConfig \<Rightarrow> ClimateData list \<Rightarrow> ScoredPoint list" where
  "detectMagnitudeOutliers config data =
     (let mean = precMean data;
          std = precStd data
      in map (scorePoint config mean std) (enumerate 0 data))"

text \<open>The distance computed inside the neighbour filter.\<close>

definition distance :: "'a ClimateData_scheme \<Rightarrow> 'b ClimateData_scheme \<Rightarrow> jsnum" where
  "distance point targetPoint =
     jsqrt (jadd (jpow2 (jsub (lat point) (lat targetPoint)))
                 (jpow2 (jsub (lon point) (lon targetPoint))))"

definition findNeighbors ::
  "DetectionConfig \<Rightarrow> 'a ClimateData_scheme \<Rightarrow> 'b ClimateData_scheme list \<Rightarrow> 'b ClimateData_scheme list" where
  "findNeighbors config targetPoint allPoints =
     filter (\<lambda>point.
        if jeq (lat point) (lat targetPoint) \<and> jeq (lon point) (lon targetPoint) then False
        else jle (distance point targetPoint) (Fin (spatialRadius config)))
       allPoints"

definition meanNeighborVector :: "'a ClimateData_scheme list \<Rightarrow> WindVector" where
  "meanNeighborVector nbrs =
     (let acc = foldl (\<lambda>acc neighbor.
                   let vector = convertWindToVector (ws10m neighbor) (wd10m neighbor)
                   in \<lparr> u = jadd (u acc) (u vector), v = jadd (v acc) (v vector) \<rparr>)
                 \<lparr> u = Fin 0, v = Fin 0 \<rparr> nbrs
      in \<lparr> u = jdiv (u acc) (Fin (real (length nbrs))),
           v = jdiv (v acc) (Fin (real (length nbrs))) \<rparr>)"

definition magnitude :: "WindVector \<Rightarrow> jsnum" where
  "magnitude w = jsqrt (jadd (jmul (u w) (u w)) (jmul (v w) (v w)))"

definition dotProduct :: "WindVector \<Rightarrow> WindVector \<Rightarrow> jsnum" where
  "dotProduct a b = jadd (jmul (u a) (u b)) (jmul (v a) (v b))"

definition calculateDirectionalConsistency ::
  "DetectionConfig \<Rightarrow> 'a ClimateData_scheme \<Rightarrow> 'b ClimateData_scheme list \<Rightarrow> Consistency" where
  "calculateDirectionalConsistency config targetPoint nbrs =
     (if int (length nbrs) < minimumNeighbors config
      then \<lparr> consistency = Fin 0, isCoherent = False \<rparr>
      else
        let targetVector = convertWindToVector (ws10m targetPoint) (wd10m targetPoint);
            meanVector = meanNeighborVector nbrs;
            targetMagnitude = magnitude targetVector;
            neighborMagnitude = magnitude meanVector
        in if jeq targetMagnitude (Fin 0) \<or> jeq neighborMagnitude (Fin 0)
           then \<lparr> consistency = Fin 0, isCoherent = False \<rparr>
           else
             let c = jdiv (dotProduct targetVector meanVector)
                          (jmul targetMagnitude neighborMagnitude)
             in \<lparr> consistency = c, isCoherent = jgt c (Fin 0.5) \<rparr>)"

text \<open>The body of the loop over the candidates: one pushed object per candidate.\<close>

definition validateCandidate ::
  "DetectionConfig \<Rightarrow> ClimateData list \<Rightarrow> ScoredPoint \<Rightarrow> Anomaly" where
  "validateCandidate config data candidate =
     (let nbrs = findNeighbors config candidate data
      in if enableDirectionalConsistency config
         then
           let r = calculateDirectionalConsistency config candidate nbrs
           in ScoredPoint.extend candidate
                (Anomaly.fields (length nbrs) (Some (consistency r)) (Some (isCoherent r))
                   (isCoherent r)
                   (if isCoherent r then jadd (Fin 0.8) (jmul (consistency r) (Fin 0.2))
                    else jsub (Fin 0.3) (jmul (consistency r) (Fin 0.2))))
         else
           ScoredPoint.extend candidate
             (Anomaly.fields (length nbrs) None None True (Fin 0.7)))"

text \<open>
  \<open>Array.prototype.sort\<close> with a comparator. The sort is stable; whenever the comparator
  is a consistent ordering (here: whenever no comparator result is NaN) every stable sort
  returns the same list, computed below by insertion. When a comparator result is NaN the
  order that \<open>Array.prototype.sort\<close> returns is implementation-defined: the function
  below then returns one permutation of the list, and no statement in this theory depends
  on which one.
\<close>

fun insertBy :: "('a \<Rightarrow> 'a \<Rightarrow> jsnum) \<Rightarrow> 'a \<Rightarrow> 'a list \<Rightarrow> 'a list" where
  "insertBy cmp x [] = [x]"
| "insertBy cmp x (y # ys) =
     (if jgt (cmp x y) (Fin 0) then y # insertBy cmp x ys else x # y # ys)"

definition sortBy :: "('a \<Rightarrow> 'a \<Rightarrow> jsnum) \<Rightarrow> 'a list \<Rightarrow> 'a list" where
  "sortBy cmp xs = foldr (insertBy cmp) xs []"

definition byConfidence :: "Anomaly \<Rightarrow> Anomaly \<Rightarrow> jsnum" where
  "byConfidence a b = jsub (confidence b) (confidence a)"

text \<open>
  \<open>runDetection\<close>. On empty data it shows the destructive toast "No data available" and
  returns without handing any list to \<open>onAnomaliesDetected\<close>; otherwise the sorted list
  is handed over. The arithmetic of the detection steps never throws, so the \<open>catch\<close>
  branch of the source has no counterpart here.
\<close>

datatype error = NoDataAvailable

definition runDetection :: "DetectionConfig \<Rightarrow> ClimateData list \<Rightarrow> error + Anomaly list" where
  "runDetection config data =
     (if length data = 0 then Inl NoDataAvailable
      else
        let magnitudeOutliers = detectMagnitudeOutliers config data;
            candidateAnomalies = filter isOutlier magnitudeOutliers;
            validatedAnomalies = map (validateCandidate config data) candidateAnomalies
        in Inr (sortBy byConfidence validatedAnomalies))"

text \<open>
  The order of the result list: higher confidence first, and among equal confidences the
  order of the dataset (which is the order in which the loop pushed them).
\<close>

definition rankedBefore :: "Anomaly \<Rightarrow> Anomaly \<Rightarrow> bool" where
  "rankedBefore a b =
     (jgt (confidence a) (confidence b) \<or> (confidence a = confidence b \<and> index a < index b))"

text \<open>The indices flagged by the screener: deviation score above the threshold.\<close>

definition flaggedIndices :: "DetectionConfig \<Rightarrow> ClimateData list \<Rightarrow> nat list" where
  "flaggedIndices config data =
     filter (\<lambda>i. jgt (zScore (detectMagnitudeOutliers config data ! i)) (Fin (zScoreThreshold config)))
       [0 ..< length data]"

section \<open>Sample data\<close>

definition obs :: "real \<Rightarrow> real \<Rightarrow> real \<Rightarrow> real \<Rightarrow> real \<Rightarrow> ClimateData" where
  "obs la lo ws wd p =
     \<lparr> lat = Fin la, lon = Fin lo, year = Fin 2020, month = Fin 6, date = Fin 1,
       ws10m = Fin ws, wd10m = Fin wd, qv2m = Fin 5, prec = Fin p \<rparr>"

text \<open>
  Ten rows: a wet row at (29, 79), a dry row at the same coordinates, three dry rows
  within half a degree of it, and five dry rows two degrees away.
\<close>

definition storm :: "ClimateData list" where
  "storm = [obs 29 79 3 0 10, obs 29 79 2 0 0, obs 29.25 79 2 0 0, obs 29 79.25 2 0 0,
            obs 29.25 79.25 2 0 0, obs 31 79 2 180 0, obs 31 79 2 180 0, obs 31 79 2 180 0,
            obs 31 79 2 180 0, obs 31 79 2 180 0]"

definition stormCandidate :: ScoredPoint where
  "stormCandidate = ClimateData.extend (obs 29 79 3 0 10) (ScoredPoint.fields 0 (Fin 3) True)"

text \<open>
  Ten rows with two wet ones: the row at index 2 is isolated, the row at index 5 sits among
  four dry rows whose wind has the same direction. The lower threshold 1.5 is the least
  value of the threshold slider.
\<close>

definition twoStorms :: "ClimateData list" where
  "twoStorms = [obs 29 79 2 0 0, obs 29.25 79 2 0 0, obs 40 79 3 0 10, obs 29 79.25 2 0 0,
                obs 29.25 79.25 2 0 0, obs 29.125 79.125 3 0 10, obs 31 79 2 180 0,
                obs 31 79 2 180 0, obs 31 79 2 180 0, obs 31 79 2 180 0]"

definition lowThreshold :: DetectionConfig where
  "lowThreshold = initialConfig\<lparr>zScoreThreshold := 3 / 2\<rparr>"

definition isolatedCandidate :: ScoredPoint where
  "isolatedCandidate = ClimateData.extend (obs 40 79 3 0 10) (ScoredPoint.fields 2 (Fin 2) True)"

definition clusteredCandidate :: ScoredPoint where
  "clusteredCandidate =
     ClimateData.extend (obs 29.125 79.125 3 0 10) (ScoredPoint.fields 5 (Fin 2) True)"

text \<open>
  Twenty rows under the initial configuration: the wet row at index 2 is isolated; the wet
  row at index 5 and its four neighbours report a wind speed of \<open>1e200\<close>, whose
  square is beyond the range of binary64. (The double nearest to \<open>1e200\<close> differs
  from the real number used here; its square overflows all the same.)
\<close>

definition galeSpeed :: real where
  "galeSpeed = 10 ^ 200"

definition gale :: "ClimateData list" where
  "gale = [obs 29 79 galeSpeed 0 0, obs 29.25 79 galeSpeed 0 0, obs 40 79 3 0 10,
           obs 29 79.25 galeSpeed 0 0, obs 29.25 79.25 galeSpeed 0 0,
           obs 29.125 79.125 galeSpeed 0 10,
           obs 31 79 2 180 0, obs 31 79 2 180 0, obs 31 79 2 180 0, obs 31 79 2 180 0,
           obs 31 79 2 180 0, obs 31 79 2 180 0, obs 31 79 2 180 0, obs 31 79 2 180 0,
           obs 31 79 2 180 0, obs 31 79 2 180 0, obs 31 79 2 180 0, obs 31 79 2 180 0,
           obs 31 79 2 180 0, obs 31 79 2 180 0]"

definition galeIsolated :: ScoredPoint where
  "galeIsolated = ClimateData.extend (obs 40 79 3 0 10) (ScoredPoint.fields 2 (Fin 3) True)"

definition galeClustered :: ScoredPoint where
  "galeClustered =
     ClimateData.extend (obs 29.125 79.125 galeSpeed 0 10) (ScoredPoint.fields 5 (Fin 3) True)"

section \<open>Auxiliary facts\<close>

subsection \<open>Numbers\<close>

lemma is_Fin_iff: "is_Fin a \<longleftrightarrow> (\<exists>x. a = Fin x)"
  by (cases a) simp_all

lemma overflowAt_bounds: "10 ^ 300 < overflowAt" "overflowAt \<le> 10 ^ 309"
  by (simp_all add: overflowAt_def)

lemma overflowAt_pos: "1 < overflowAt"
  using overflowAt_bounds(1) by (rule less_trans[rotated]) simp

lemma fin_small: "\<bar>x\<bar> \<le> 10 ^ 300 \<Longrightarrow> fin x = Fin x"
  using overflowAt_bounds(1) by (auto simp: fin_def)

lemma fin_huge: "10 ^ 309 \<le> x \<Longrightarrow> fin x = PInf"
  using overflowAt_bounds(2) by (auto simp: fin_def)

lemma fin_tiny: "\<bar>x\<bar> \<le> 1000000 \<Longrightarrow> fin x = Fin x"
  by (rule fin_small) simp

lemma fin_zero [simp]: "fin 0 = Fin 0"
  by (simp add: fin_tiny)

lemma fin_gale: "0 \<le> k \<Longrightarrow> k \<le> 10 \<Longrightarrow> fin (k * galeSpeed) = Fin (k * galeSpeed)"
proof (rule fin_small)
  assume "0 \<le> k" "k \<le> 10"
  then have "k * galeSpeed \<le> 10 * galeSpeed" and "0 \<le> k * galeSpeed"
    by (simp_all add: galeSpeed_def)
  then show "\<bar>k * galeSpeed\<bar> \<le> 10 ^ 300"
    by (simp add: galeSpeed_def)
qed

lemma fin_gale_one: "fin galeSpeed = Fin galeSpeed"
  using fin_gale[of 1] by simp

lemma fin_gale_square: "fin (galeSpeed * galeSpeed) = PInf"
  by (rule fin_huge) (simp add: galeSpeed_def)

lemma fin_not_NaN [simp]: "fin x \<noteq> NaN"
  by (simp add: fin_def)

lemma fin_eq_zero_iff [simp]: "fin x = Fin 0 \<longleftrightarrow> x = 0"
  using overflowAt_pos by (auto simp: fin_def)

lemma jgt_fin_zero [simp]: "jgt (fin x) (Fin 0) = (0 < x)"
  using overflowAt_pos by (auto simp: fin_def jgt_def)

lemma jle_Fin [simp]: "jle (Fin a) (Fin b) = (a \<le> b)"
  by (auto simp: jle_def jeq_def)

lemma jgt_Fin [simp]: "jgt (Fin a) (Fin b) = (b < a)"
  by (simp add: jgt_def)

lemma jeq_Fin [simp]: "jeq (Fin a) (Fin b) = (a = b)"
  by (simp add: jeq_def)

lemma jsub_Fin [simp]: "jsub (Fin a) (Fin b) = fin (a - b)"
  by (simp add: jsub_def)

lemma jgt_NaN [simp]: "jgt NaN b = False"
  by (simp add: jgt_def)

lemma NaN_right [simp]: "jadd a NaN = NaN" "jmul a NaN = NaN" "jdiv a NaN = NaN"
  by (cases a; simp)+

lemma jsub_NaN [simp]: "jsub NaN b = NaN" "jsub a NaN = NaN"
  by (simp_all add: jsub_def)

lemma jgt_mono: "jgt a (Fin t2) \<Longrightarrow> t1 \<le> t2 \<Longrightarrow> jgt a (Fin t1)"
  by (cases a) (simp_all add: jgt_def)

lemma jle_mono: "jle a (Fin r1) \<Longrightarrow> r1 \<le> r2 \<Longrightarrow> jle a (Fin r2)"
  by (cases a) (auto simp: jle_def jeq_def)

lemma sqrt_le_iff_square: "0 \<le> r \<Longrightarrow> (sqrt x \<le> r) = (x \<le> r * r)"
  by (metis abs_of_nonneg real_sqrt_abs2 real_sqrt_le_iff)

lemma sqrt_nine: "sqrt 9 = 3"
  using real_sqrt_abs[of 3] by simp

lemma sqrt_sixteen: "sqrt 16 = 4"
  using real_sqrt_abs[of 4] by simp

text \<open>The comparator of the sort is positive exactly when its first argument is the smaller.\<close>

lemma comparator_positive:
  "a \<noteq> NaN \<Longrightarrow> b \<noteq> NaN \<Longrightarrow> jgt (jsub b a) (Fin 0) = jlt a b"
proof (cases a; cases b)
  fix x y assume "a = Fin x" "b = Fin y"
  then show ?thesis
    using jgt_fin_zero[of "y - x"] by simp
qed (simp_all add: jsub_def jgt_def)

lemma jlt_trans: "jlt a b \<Longrightarrow> jlt b c \<Longrightarrow> jlt a c"
  by (cases a; cases b; cases c) simp_all

lemma jlt_linear: "a \<noteq> NaN \<Longrightarrow> b \<noteq> NaN \<Longrightarrow> jlt a b \<or> a = b \<or> jlt b a"
  by (cases a; cases b) auto

subsection \<open>Sorting\<close>

lemma mset_insertBy: "mset (insertBy cmp x ys) = add_mset x (mset ys)"
  by (induction ys) simp_all

lemma mset_sortBy: "mset (sortBy cmp xs) = mset xs"
  unfolding sortBy_def by (induction xs) (simp_all add: mset_insertBy)

lemma set_insertBy: "set (insertBy cmp x ys) = insert x (set ys)"
  using mset_insertBy[of cmp x ys] by (metis set_mset_add_mset_insert set_mset_mset)

lemma set_sortBy: "set (sortBy cmp xs) = set xs"
  by (metis mset_sortBy set_mset_mset)

lemma byConfidence_positive:
  "confidence a \<noteq> NaN \<Longrightarrow> confidence b \<noteq> NaN \<Longrightarrow>
   jgt (byConfidence a b) (Fin 0) = jlt (confidence a) (confidence b)"
  by (simp add: byConfidence_def comparator_positive)

lemma rankedBefore_iff:
  "rankedBefore a b =
     (jlt (confidence b) (confidence a) \<or> (confidence a = confidence b \<and> index a < index b))"
  by (simp add: rankedBefore_def jgt_def)

lemma sorted_insertBy:
  assumes "sorted_wrt rankedBefore ys"
    and "\<forall>y\<in>set ys. index x < index y"
    and "\<forall>y\<in>set (x # ys). confidence y \<noteq> NaN"
  shows "sorted_wrt rankedBefore (insertBy byConfidence x ys)"
  using assms
proof (induction ys)
  case Nil
  then show ?case by simp
next
  case (Cons y ys)
  have nx: "confidence x \<noteq> NaN" and ny: "confidence y \<noteq> NaN"
    using Cons.prems(3) by auto
  show ?case
  proof (cases "jlt (confidence x) (confidence y)")
    case True
    have "sorted_wrt rankedBefore (insertBy byConfidence x ys)"
      using Cons by simp
    moreover have "rankedBefore y x"
      using True by (simp add: rankedBefore_iff)
    ultimately show ?thesis
      using True Cons.prems(1) by (simp add: byConfidence_positive[OF nx ny] set_insertBy)
  next
    case False
    have xy: "jlt (confidence y) (confidence x) \<or> confidence x = confidence y"
      using False jlt_linear[OF nx ny] by auto
    have "rankedBefore x z" if z: "z \<in> set (y # ys)" for z
    proof -
      have nz: "confidence z \<noteq> NaN"
        using Cons.prems(3) z by auto
      have ix: "index x < index z"
        using z Cons.prems(2) by auto
      have "z = y \<or> rankedBefore y z"
        using z Cons.prems(1) by auto
      then have yz: "jlt (confidence z) (confidence y) \<or> confidence y = confidence z"
        by (auto simp: rankedBefore_iff)
      have "jlt (confidence z) (confidence x) \<or> confidence x = confidence z"
        using xy yz by (auto intro: jlt_trans)
      then show ?thesis
        using ix by (auto simp: rankedBefore_iff)
    qed
    then show ?thesis
      using False Cons.prems(1) by (simp add: byConfidence_positive[OF nx ny])
  qed
qed

lemma sorted_sortBy:
  assumes "sorted_wrt (<) (map index xs)"
    and "\<forall>x\<in>set xs. confidence x \<noteq> NaN"
  shows "sorted_wrt rankedBefore (sortBy byConfidence xs)"
  using assms
proof (induction xs)
  case Nil
  then show ?case by (simp add: sortBy_def)
next
  case (Cons x xs)
  have "sorted_wrt rankedBefore (sortBy byConfidence xs)"
    using Cons by simp
  moreover have "\<forall>y\<in>set (sortBy byConfidence xs). index x < index y"
    using Cons.prems(1) by (simp add: set_sortBy)
  moreover have "\<forall>y\<in>set (x # sortBy byConfidence xs). confidence y \<noteq> NaN"
    using Cons.prems(2) by (simp add: set_sortBy)
  ultimately have "sorted_wrt rankedBefore (insertBy byConfidence x (sortBy byConfidence xs))"
    by (rule sorted_insertBy)
  then show ?case by (simp add: sortBy_def)
qed

subsection \<open>The screener\<close>

lemma index_scorePoint [simp]: "index (scorePoint config mean std ip) = fst ip"
  by (simp add: scorePoint_def Let_def ClimateData.defs ScoredPoint.defs)

lemma zScore_scorePoint [simp]:
  "zScore (scorePoint config mean std ip) = jdiv (jabs (jsub (prec (snd ip)) mean)) std"
  by (simp add: scorePoint_def Let_def ClimateData.defs ScoredPoint.defs)

lemma isOutlier_scorePoint [simp]:
  "isOutlier (scorePoint config mean std ip) =
     jgt (jdiv (jabs (jsub (prec (snd ip)) mean)) std) (Fin (zScoreThreshold config))"
  by (simp add: scorePoint_def Let_def ClimateData.defs ScoredPoint.defs)

lemma coords_scorePoint [simp]:
  "lat (scorePoint config mean std ip) = lat (snd ip)"
  "lon (scorePoint config mean std ip) = lon (snd ip)"
  "ws10m (scorePoint config mean std ip) = ws10m (snd ip)"
  "wd10m (scorePoint config mean std ip) = wd10m (snd ip)"
  "prec (scorePoint config mean std ip) = prec (snd ip)"
  by (simp_all add: scorePoint_def Let_def ClimateData.defs ScoredPoint.defs)

lemma length_detect [simp]: "length (detectMagnitudeOutliers config data) = length data"
  by (simp add: detectMagnitudeOutliers_def)

lemma nth_detect:
  "i < length data \<Longrightarrow>
   detectMagnitudeOutliers config data ! i = scorePoint config (precMean data) (precStd data) (i, data ! i)"
  by (simp add: detectMagnitudeOutliers_def nth_enumerate_eq)

lemma map_index_detect: "map index (detectMagnitudeOutliers config data) = [0 ..< length data]"
  by (rule nth_equalityI) (simp_all add: nth_detect)

lemma isOutlier_detect:
  "i < length data \<Longrightarrow>
   isOutlier (detectMagnitudeOutliers config data ! i) =
     jgt (zScore (detectMagnitudeOutliers config data ! i)) (Fin (zScoreThreshold config))"
  by (simp add: nth_detect)

lemma filter_map_index:
  "map index (filter P xs) = filter (\<lambda>i. P (xs ! i)) [0 ..< length xs]"
  if "map index xs = [0 ..< length xs]" for xs :: "ScoredPoint list"
proof -
  have "filter (\<lambda>i. P (xs ! i)) (map index xs) = map index (filter ((\<lambda>i. P (xs ! i)) \<circ> index) xs)"
    by (simp add: filter_map)
  also have "filter ((\<lambda>i. P (xs ! i)) \<circ> index) xs = filter P xs"
  proof (rule filter_cong[OF refl])
    fix x assume "x \<in> set xs"
    then obtain k where k: "k < length xs" "xs ! k = x" by (auto simp: in_set_conv_nth)
    have "index x = k" using that k by (metis nth_map nth_upt add_0)
    then show "((\<lambda>i. P (xs ! i)) \<circ> index) x = P x" using k by simp
  qed
  finally show ?thesis using that by simp
qed

lemma candidates_index:
  "map index (filter isOutlier (detectMagnitudeOutliers config data)) = flaggedIndices config data"
proof -
  have "map index (filter isOutlier (detectMagnitudeOutliers config data))
        = filter (\<lambda>i. isOutlier (detectMagnitudeOutliers config data ! i)) [0 ..< length data]"
    using filter_map_index[OF map_index_detect[of config data, folded length_detect[of config data]], of isOutlier]
    by simp
  also have "\<dots> = flaggedIndices config data"
    unfolding flaggedIndices_def by (rule filter_cong) (simp_all add: isOutlier_detect)
  finally show ?thesis .
qed

lemma sorted_flaggedIndices: "sorted_wrt (<) (flaggedIndices config data)"
  unfolding flaggedIndices_def by (simp add: sorted_wrt_filter)

lemma detect_coords:
  assumes "c \<in> set (detectMagnitudeOutliers config data)"
  shows "index c < length data" and "lat c = lat (data ! index c)" and "lon c = lon (data ! index c)"
    and "ws10m c = ws10m (data ! index c)" and "wd10m c = wd10m (data ! index c)"
proof -
  obtain k where k: "k < length data" "detectMagnitudeOutliers config data ! k = c"
    using assms by (auto simp: in_set_conv_nth)
  then have c: "c = scorePoint config (precMean data) (precStd data) (k, data ! k)"
    by (simp add: nth_detect)
  show "index c < length data" and "lat c = lat (data ! index c)" and "lon c = lon (data ! index c)"
    and "ws10m c = ws10m (data ! index c)" and "wd10m c = wd10m (data ! index c)"
    using k(1) by (simp_all add: c)
qed

lemma length_filter_mono:
  "(\<And>x. x \<in> set xs \<Longrightarrow> P x \<Longrightarrow> Q x) \<Longrightarrow> length (filter P xs) \<le> length (filter Q xs)"
  by (induction xs) auto

lemma candidates_shrink:
  assumes "t1 \<le> t2"
  shows "length (filter isOutlier (detectMagnitudeOutliers (config\<lparr>zScoreThreshold := t2\<rparr>) data))
       \<le> length (filter isOutlier (detectMagnitudeOutliers (config\<lparr>zScoreThreshold := t1\<rparr>) data))"
proof -
  have "length (filter isOutlier (detectMagnitudeOutliers (config\<lparr>zScoreThreshold := t\<rparr>) data))
        = length (filter (\<lambda>ip. jgt (jdiv (jabs (jsub (prec (snd ip)) (precMean data))) (precStd data)) (Fin t))
                    (enumerate 0 data))" for t
    by (simp add: detectMagnitudeOutliers_def filter_map comp_def)
  then show ?thesis
    using assms by (auto intro: length_filter_mono jgt_mono)
qed

subsection \<open>The neighbour query\<close>

lemma findNeighbors_filter:
  "findNeighbors config t allPoints =
     filter (\<lambda>p. (lat p, lon p) \<noteq> (lat t, lon t)
                \<and> jle (distance p t) (Fin (spatialRadius config))) allPoints"
  unfolding findNeighbors_def
proof (rule filter_cong[OF refl])
  fix p :: "'c ClimateData_scheme"
  have "\<not> jle (distance p t) (Fin (spatialRadius config))"
    if "lat p = lat t" "lon p = lon t" "lat p = NaN \<or> lon p = NaN"
    using that by (auto simp: distance_def jsub_def jpow2_def jle_def jeq_def)
  then show "(if jeq (lat p) (lat t) \<and> jeq (lon p) (lon t) then False
              else jle (distance p t) (Fin (spatialRadius config)))
           = ((lat p, lon p) \<noteq> (lat t, lon t) \<and> jle (distance p t) (Fin (spatialRadius config)))"
    by (auto simp: jeq_def)
qed

lemma distance_cong:
  "lat t = lat t' \<Longrightarrow> lon t = lon t' \<Longrightarrow> distance p t = distance p t'"
  by (simp add: distance_def)

lemma neighbors_grow:
  assumes "r1 \<le> r2"
  shows "findNeighbors (config\<lparr>spatialRadius := r1\<rparr>) t allPoints
       = filter (\<lambda>p. jle (distance p t) (Fin r1)) (findNeighbors (config\<lparr>spatialRadius := r2\<rparr>) t allPoints)"
  using assms by (auto simp: findNeighbors_filter intro: filter_cong dest: jle_mono)

subsection \<open>The loop body\<close>

lemma validate_copy [simp]:
  "index (validateCandidate config data c) = index c"
  "lat (validateCandidate config data c) = lat c"
  "lon (validateCandidate config data c) = lon c"
  "zScore (validateCandidate config data c) = zScore c"
  "isOutlier (validateCandidate config data c) = isOutlier c"
  by (simp_all add: validateCandidate_def Let_def ScoredPoint.defs Anomaly.defs)

lemma validate_neighbors [simp]:
  "neighbors (validateCandidate config data c) = length (findNeighbors config c data)"
  by (simp add: validateCandidate_def Let_def ScoredPoint.defs Anomaly.defs)

lemma validate_disabled:
  assumes "\<not> enableDirectionalConsistency config"
  shows "directionalConsistency (validateCandidate config data c) = None"
    and "isDirectionallyCoherent (validateCandidate config data c) = None"
    and "isTrueAnomaly (validateCandidate config data c) = True"
    and "confidence (validateCandidate config data c) = Fin 0.7"
  using assms by (simp_all add: validateCandidate_def Let_def ScoredPoint.defs Anomaly.defs)

lemma validate_enabled:
  assumes "enableDirectionalConsistency config"
    and "r = calculateDirectionalConsistency config c (findNeighbors config c data)"
  shows "directionalConsistency (validateCandidate config data c) = Some (consistency r)"
    and "isDirectionallyCoherent (validateCandidate config data c) = Some (isCoherent r)"
    and "isTrueAnomaly (validateCandidate config data c) = isCoherent r"
    and "confidence (validateCandidate config data c) =
           (if isCoherent r then jadd (Fin 0.8) (jmul (consistency r) (Fin 0.2))
            else jsub (Fin 0.3) (jmul (consistency r) (Fin 0.2)))"
  using assms
  by (simp_all add: validateCandidate_def Let_def ScoredPoint.defs Anomaly.defs)

lemma runDetection_nonempty:
  "data \<noteq> [] \<Longrightarrow>
   runDetection config data =
     Inr (sortBy byConfidence
            (map (validateCandidate config data)
               (filter isOutlier (detectMagnitudeOutliers config data))))"
  by (simp add: runDetection_def)

lemma runDetection_results:
  assumes "runDetection config data = Inr out" and "r \<in> set out"
  obtains c where "c \<in> set (detectMagnitudeOutliers config data)" and "isOutlier c"
    and "r = validateCandidate config data c"
proof -
  have "data \<noteq> []" using assms(1) by (auto simp: runDetection_def)
  then have "set out = validateCandidate config data ` set (filter isOutlier (detectMagnitudeOutliers config data))"
    using assms(1) by (auto simp: runDetection_nonempty set_sortBy)
  then show ?thesis using assms(2) that by auto
qed

text \<open>The radius test on coordinates in degrees, without the square root.\<close>

lemma square_bounded:
  fixes x :: real
  assumes "\<bar>x\<bar> \<le> 2000"
  shows "\<bar>x * x\<bar> \<le> 4000000"
proof -
  have "\<bar>x\<bar> * \<bar>x\<bar> \<le> 2000 * 2000"
    using assms by (intro mult_mono) auto
  then show ?thesis by (simp add: abs_mult)
qed

lemma within_radius:
  assumes "is_Fin (lat p)" "is_Fin (lon p)" "is_Fin (lat t)" "is_Fin (lon t)"
    and "\<bar>real_of (lat p)\<bar> \<le> 1000" "\<bar>real_of (lon p)\<bar> \<le> 1000"
    and "\<bar>real_of (lat t)\<bar> \<le> 1000" "\<bar>real_of (lon t)\<bar> \<le> 1000"
    and "0 \<le> r"
  shows "jle (distance p t) (Fin r) =
           ((real_of (lat p) - real_of (lat t)) * (real_of (lat p) - real_of (lat t))
            + (real_of (lon p) - real_of (lon t)) * (real_of (lon p) - real_of (lon t)) \<le> r * r)"
proof -
  obtain a b c d where e: "lat p = Fin a" "lon p = Fin b" "lat t = Fin c" "lon t = Fin d"
    using assms(1-4) by (auto simp: is_Fin_iff)
  have la: "\<bar>a - c\<bar> \<le> 2000" and lo: "\<bar>b - d\<bar> \<le> 2000"
    using assms(5-8) by (simp_all add: e)
  have sa: "\<bar>(a - c) * (a - c)\<bar> \<le> 4000000" and sb: "\<bar>(b - d) * (b - d)\<bar> \<le> 4000000"
    using square_bounded[OF la] square_bounded[OF lo] by simp_all
  have f1: "fin (a - c) = Fin (a - c)" "fin (b - d) = Fin (b - d)"
    using la lo by (simp_all add: fin_small)
  have f2: "fin ((a - c) * (a - c)) = Fin ((a - c) * (a - c))"
    "fin ((b - d) * (b - d)) = Fin ((b - d) * (b - d))"
    using sa sb by (simp_all add: fin_small)
  have f3: "fin ((a - c) * (a - c) + (b - d) * (b - d)) = Fin ((a - c) * (a - c) + (b - d) * (b - d))"
    using sa sb by (intro fin_small) simp
  show ?thesis
    using assms(9)
    by (simp add: distance_def e jpow2_def f1 f2 f3 sqrt_le_iff_square not_sum_squares_lt_zero)
qed

subsection \<open>The sample runs\<close>

lemma initialConfig_fields:
  "zScoreThreshold initialConfig = 5 / 2" "spatialRadius initialConfig = 1 / 2"
  "minimumNeighbors initialConfig = 3" "enableDirectionalConsistency initialConfig"
  by (simp_all add: initialConfig_def)

lemma lowThreshold_fields:
  "zScoreThreshold lowThreshold = 3 / 2" "spatialRadius lowThreshold = 1 / 2"
  "minimumNeighbors lowThreshold = 3" "enableDirectionalConsistency lowThreshold"
  by (simp_all add: lowThreshold_def initialConfig_def)

lemma candidate_index [simp]:
  "index stormCandidate = 0" "index isolatedCandidate = 2" "index clusteredCandidate = 5"
  "index galeIsolated = 2" "index galeClustered = 5"
  by (simp_all add: stormCandidate_def isolatedCandidate_def clusteredCandidate_def
        galeIsolated_def galeClustered_def ClimateData.defs ScoredPoint.defs)

lemma storm_mean: "precMean storm = Fin 1"
  by (simp add: precMean_def storm_def obs_def fin_tiny)

lemma storm_std: "precStd storm = Fin 3"
  by (simp add: precStd_def storm_mean jpow2_def) (simp add: storm_def obs_def sqrt_nine fin_tiny)

lemma storm_candidates:
  assumes "zScoreThreshold config = 5 / 2"
  shows "filter isOutlier (detectMagnitudeOutliers config storm) = [stormCandidate]"
  unfolding detectMagnitudeOutliers_def storm_mean storm_std scorePoint_def assms
  by (simp add: storm_def obs_def Let_def ClimateData.defs ScoredPoint.defs stormCandidate_def
        fin_tiny)

lemma storm_neighbors:
  assumes "spatialRadius config = 1 / 2"
  shows "findNeighbors config stormCandidate storm =
           [obs 29.25 79 2 0 0, obs 29 79.25 2 0 0, obs 29.25 79.25 2 0 0]"
  unfolding findNeighbors_def assms
  by (simp add: within_radius stormCandidate_def storm_def obs_def
        ClimateData.defs ScoredPoint.defs)

lemma storm_run:
  assumes "zScoreThreshold config = 5 / 2"
  shows "runDetection config storm = Inr [validateCandidate config storm stormCandidate]"
proof -
  have "storm \<noteq> []" by (simp add: storm_def)
  then show ?thesis
    by (simp add: runDetection_nonempty storm_candidates[OF assms] sortBy_def)
qed

lemma twoStorms_mean: "precMean twoStorms = Fin 2"
  by (simp add: precMean_def twoStorms_def obs_def fin_tiny)

lemma twoStorms_std: "precStd twoStorms = Fin 4"
  by (simp add: precStd_def twoStorms_mean jpow2_def)
     (simp add: twoStorms_def obs_def sqrt_sixteen fin_tiny)

lemma twoStorms_candidates:
  assumes "zScoreThreshold config = 3 / 2"
  shows "filter isOutlier (detectMagnitudeOutliers config twoStorms)
           = [isolatedCandidate, clusteredCandidate]"
  unfolding detectMagnitudeOutliers_def twoStorms_mean twoStorms_std scorePoint_def assms
  by (simp add: twoStorms_def obs_def Let_def ClimateData.defs ScoredPoint.defs
        isolatedCandidate_def clusteredCandidate_def fin_tiny)

lemma twoStorms_neighbors:
  assumes "spatialRadius config = 1 / 2"
  shows "findNeighbors config isolatedCandidate twoStorms = []"
    and "findNeighbors config clusteredCandidate twoStorms
           = [obs 29 79 2 0 0, obs 29.25 79 2 0 0, obs 29 79.25 2 0 0, obs 29.25 79.25 2 0 0]"
  unfolding findNeighbors_def assms
  by (simp_all add: within_radius isolatedCandidate_def clusteredCandidate_def twoStorms_def
        obs_def ClimateData.defs ScoredPoint.defs)

lemma twoStorms_isolated:
  assumes "enableDirectionalConsistency config" and "spatialRadius config = 1 / 2"
    and "1 \<le> minimumNeighbors config"
  shows "directionalConsistency (validateCandidate config twoStorms isolatedCandidate) = Some (Fin 0)"
    and "confidence (validateCandidate config twoStorms isolatedCandidate) = Fin (3 / 10)"
  unfolding validate_enabled[OF assms(1) refl] twoStorms_neighbors[OF assms(2)]
  using assms(3) by (simp_all add: calculateDirectionalConsistency_def fin_tiny)

lemma twoStorms_clustered:
  assumes "enableDirectionalConsistency config" and "spatialRadius config = 1 / 2"
    and "minimumNeighbors config \<le> 4"
  shows "directionalConsistency (validateCandidate config twoStorms clusteredCandidate) = Some (Fin 1)"
    and "confidence (validateCandidate config twoStorms clusteredCandidate) = Fin 1"
  unfolding validate_enabled[OF assms(1) refl] twoStorms_neighbors[OF assms(2)]
  using assms(3)
  by (simp_all add: calculateDirectionalConsistency_def clusteredCandidate_def
        ClimateData.defs ScoredPoint.defs meanNeighborVector_def convertWindToVector_def
        magnitude_def dotProduct_def obs_def Let_def fin_tiny)

lemma twoStorms_run:
  "runDetection lowThreshold twoStorms
     = Inr [validateCandidate lowThreshold twoStorms clusteredCandidate,
            validateCandidate lowThreshold twoStorms isolatedCandidate]"
proof -
  have "twoStorms \<noteq> []" by (simp add: twoStorms_def)
  then show ?thesis
    by (simp add: runDetection_nonempty twoStorms_candidates sortBy_def byConfidence_def
          twoStorms_isolated twoStorms_clustered lowThreshold_fields fin_tiny)
qed

lemma gale_mean: "precMean gale = Fin 1"
  by (simp add: precMean_def gale_def obs_def fin_tiny)

lemma gale_std: "precStd gale = Fin 3"
  by (simp add: precStd_def gale_mean jpow2_def) (simp add: gale_def obs_def sqrt_nine fin_tiny)

lemma gale_candidates:
  "filter isOutlier (detectMagnitudeOutliers initialConfig gale) = [galeIsolated, galeClustered]"
  unfolding detectMagnitudeOutliers_def gale_mean gale_std scorePoint_def initialConfig_fields
  by (simp add: gale_def obs_def Let_def ClimateData.defs ScoredPoint.defs
        galeIsolated_def galeClustered_def fin_tiny)

lemma gale_neighbors:
  "findNeighbors initialConfig galeIsolated gale = []"
  "findNeighbors initialConfig galeClustered gale
     = [obs 29 79 galeSpeed 0 0, obs 29.25 79 galeSpeed 0 0, obs 29 79.25 galeSpeed 0 0,
        obs 29.25 79.25 galeSpeed 0 0]"
  unfolding findNeighbors_def initialConfig_fields
  by (simp_all add: within_radius galeIsolated_def galeClustered_def gale_def
        obs_def ClimateData.defs ScoredPoint.defs)

lemma gale_isolated:
  "directionalConsistency (validateCandidate initialConfig gale galeIsolated) = Some (Fin 0)"
  "confidence (validateCandidate initialConfig gale galeIsolated) = Fin (3 / 10)"
  unfolding validate_enabled[OF initialConfig_fields(4) refl] gale_neighbors
  by (simp_all add: calculateDirectionalConsistency_def initialConfig_fields fin_tiny)

text \<open>
  The wind vectors of the clustered candidate and of its neighbours' mean are both
  \<open>(1e200, 0)\<close>; their squared lengths and their dot product overflow.
\<close>

lemma gale_clustered:
  "directionalConsistency (validateCandidate initialConfig gale galeClustered) = Some NaN"
  "isDirectionallyCoherent (validateCandidate initialConfig gale galeClustered) = Some False"
  "confidence (validateCandidate initialConfig gale galeClustered) = NaN"
  unfolding validate_enabled[OF initialConfig_fields(4) refl] gale_neighbors
  by (simp_all add: calculateDirectionalConsistency_def initialConfig_fields galeClustered_def
        ClimateData.defs ScoredPoint.defs meanNeighborVector_def convertWindToVector_def
        magnitude_def dotProduct_def obs_def Let_def fin_tiny fin_gale fin_gale_one fin_gale_square jeq_def)

lemma gale_run:
  "map_sum id mset (runDetection initialConfig gale)
     = Inr {# validateCandidate initialConfig gale galeIsolated,
              validateCandidate initialConfig gale galeClustered #}"
proof -
  have "gale \<noteq> []" by (simp add: gale_def)
  then show ?thesis
    by (simp add: runDetection_nonempty gale_candidates mset_sortBy)
qed

subsection \<open>Consistency and confidence\<close>

lemma jmul_zero: "jmul a b = Fin 0 \<Longrightarrow> a = Fin 0 \<or> b = Fin 0"
  by (cases a; cases b) (auto split: if_splits)

lemma jeq_zero [simp]: "jeq a (Fin 0) = (a = Fin 0)"
  by (auto simp: jeq_def)



section \<open>The claims\<close>

text \<open>
  Claim C1 does not hold of the code: the screener has no guard for a zero standard
  deviation. On two rows with the same precipitation the mean is that value, the standard
  deviation is 0, and each deviation score is \<open>0 / 0\<close>, which is NaN and not 0.
\<close>

theorem constant_prec_zScore_NaN:
  "map zScore (detectMagnitudeOutliers initialConfig [obs 29 79 3 0 5, obs 30 80 2 90 5]) = [NaN, NaN]"
  by (simp add: detectMagnitudeOutliers_def precMean_def precStd_def obs_def jpow2_def Let_def fin_tiny)

text \<open>
  Claim C2. On an empty observation sequence, whatever the configuration, \<open>runDetection\<close>
  fails: it reports "No data available" (the specification's EmptyInputError) to the caller
  and hands over no result list.
\<close>

theorem runDetection_empty: "runDetection config [] = Inl NoDataAvailable"
  by (simp add: runDetection_def)

text \<open>
  Claim C3, as amended. The neighbour query returns, in dataset order, exactly the
  observations whose (latitude, longitude) pair differs from the target's and whose
  Euclidean distance to the target is at most the configured radius. Exclusion is by
  coordinates: every record at the target's coordinates, the target itself and any
  duplicate at another index, is left out.
\<close>

theorem findNeighbors_by_coordinates:
  "findNeighbors config t allPoints =
     filter (\<lambda>p. (lat p, lon p) \<noteq> (lat t, lon t)
                \<and> jle (distance p t) (Fin (spatialRadius config))) allPoints"
  by (rule findNeighbors_filter)

text \<open>
  Claim C3 as stated fails on duplicates. In the sample data the row at index 1 has the
  coordinates of the row at index 0; it is another observation at distance zero, within the
  radius, and the query for the row at index 0 does not return it.
\<close>

theorem findNeighbors_duplicate_counterexample:
  "(1::nat) \<noteq> 0 \<and> jle (distance (storm ! 1) (storm ! 0)) (Fin (spatialRadius initialConfig))
   \<and> storm ! 1 \<notin> set (findNeighbors initialConfig (storm ! 0) storm)"
  by (simp add: findNeighbors_def within_radius storm_def obs_def initialConfig_def)





text \<open>
  Claim C5, as amended. For every non-empty dataset and every configuration the run
  returns a list with exactly one result for each index flagged by the screener and none
  for any other index. Whenever no result has confidence NaN, the list is ordered by
  descending confidence, equal confidences in dataset order.
\<close>

theorem results_are_ranked_candidates:
  assumes "data \<noteq> []"
  shows "\<exists>out. runDetection config data = Inr out
             \<and> mset (map index out) = mset (flaggedIndices config data)
             \<and> distinct (map index out)
             \<and> ((\<forall>r\<in>set out. confidence r \<noteq> NaN) \<longrightarrow> sorted_wrt rankedBefore out)"
proof -
  let ?cands = "filter isOutlier (detectMagnitudeOutliers config data)"
  let ?vs = "map (validateCandidate config data) ?cands"
  let ?out = "sortBy byConfidence ?vs"
  have run: "runDetection config data = Inr ?out"
    using assms(1) by (rule runDetection_nonempty)
  have idx: "map index ?vs = flaggedIndices config data"
    using candidates_index[of config data] by (simp add: comp_def)
  have "mset (map index ?out) = image_mset index (mset ?out)"
    by simp
  also have "\<dots> = image_mset index (mset ?vs)"
    by (simp only: mset_sortBy)
  also have "\<dots> = mset (flaggedIndices config data)"
    using idx by (metis mset_map)
  finally have m: "mset (map index ?out) = mset (flaggedIndices config data)" .
  have "distinct (flaggedIndices config data)"
    by (simp add: flaggedIndices_def)
  then have d: "distinct (map index ?out)"
    using m by (metis mset_eq_imp_distinct_iff)
  have s: "sorted_wrt rankedBefore ?out" if n: "\<forall>r\<in>set ?out. confidence r \<noteq> NaN"
  proof -
    have "sorted_wrt (<) (map index ?vs)"
      unfolding idx by (rule sorted_flaggedIndices)
    moreover have "\<forall>x\<in>set ?vs. confidence x \<noteq> NaN"
      using n by (simp only: set_sortBy)
    ultimately show ?thesis
      by (rule sorted_sortBy)
  qed
  show ?thesis
    using run m d s by blast
qed

text \<open>
  The second sample run: the screener flags indices 2 and 5; the loop pushes them in that
  order and the sort puts the result for index 5 (confidence 1.0) before the one for
  index 2 (confidence 0.3).
\<close>

theorem results_are_ranked_candidates_witness:
  "flaggedIndices lowThreshold twoStorms = [2, 5]
   \<and> map_sum id (map (\<lambda>r. (index r, confidence r))) (runDetection lowThreshold twoStorms)
       = Inr [(5, Fin 1), (2, Fin (3 / 10))]
   \<and> sorted_wrt rankedBefore
        [validateCandidate lowThreshold twoStorms clusteredCandidate,
         validateCandidate lowThreshold twoStorms isolatedCandidate]"
proof -
  have ne: "twoStorms \<noteq> []" by (simp add: twoStorms_def)
  note v = twoStorms_isolated[OF lowThreshold_fields(4) lowThreshold_fields(2)]
    twoStorms_clustered[OF lowThreshold_fields(4) lowThreshold_fields(2)]
  have m: "1 \<le> minimumNeighbors lowThreshold" "minimumNeighbors lowThreshold \<le> 4"
    by (simp_all add: lowThreshold_fields)
  note c = v(2)[OF m(1)] v(4)[OF m(2)]
  from results_are_ranked_candidates[OF ne, of lowThreshold]
  have "sorted_wrt rankedBefore
        [validateCandidate lowThreshold twoStorms clusteredCandidate,
         validateCandidate lowThreshold twoStorms isolatedCandidate]"
    unfolding twoStorms_run using c by auto
  moreover have "flaggedIndices lowThreshold twoStorms = [2, 5]"
    unfolding candidates_index[symmetric] twoStorms_candidates[OF lowThreshold_fields(1)]
    by simp
  ultimately show ?thesis
    unfolding twoStorms_run by (simp add: c)
qed

text \<open>
  Claim C5 as stated fails on finite wind under the initial configuration. The third
  sample run returns two results, one with confidence 0.3 and one with confidence NaN
  (see the counterexample of C4). The comparator is NaN on this pair, and in neither
  order is the list descending.
\<close>

theorem unsorted_counterexample:
  "map_sum id (\<lambda>out. image_mset confidence (mset out)) (runDetection initialConfig gale)
     = Inr {# Fin (3 / 10), NaN #}
   \<and> byConfidence (validateCandidate initialConfig gale galeIsolated)
        (validateCandidate initialConfig gale galeClustered) = NaN
   \<and> \<not> jle NaN (Fin (3 / 10)) \<and> \<not> jle (Fin (3 / 10)) NaN"
proof -
  have "map_sum id (\<lambda>out. image_mset confidence (mset out)) (runDetection initialConfig gale)
        = map_sum id (image_mset confidence) (map_sum id mset (runDetection initialConfig gale))"
    by (cases "runDetection initialConfig gale") simp_all
  then show ?thesis
    unfolding gale_run
    by (simp add: gale_isolated gale_clustered byConfidence_def jle_def jeq_def)
qed


text \<open>
  Claim C7. With directional-consistency checking enabled, a result whose neighbour count
  is below \<open>minimumNeighbors\<close> has consistency 0, is not coherent, is a false anomaly
  and has confidence exactly 0.3.
\<close>

theorem too_few_neighbors:
  assumes "enableDirectionalConsistency config"
    and "runDetection config data = Inr out"
    and "r \<in> set out"
    and "int (neighbors r) < minimumNeighbors config"
  shows "directionalConsistency r = Some (Fin 0) \<and> isDirectionallyCoherent r = Some False
         \<and> isTrueAnomaly r = False \<and> confidence r = Fin 0.3"
proof -
  obtain c where r: "r = validateCandidate config data c"
    using assms(2,3) by (rule runDetection_results)
  have few: "int (length (findNeighbors config c data)) < minimumNeighbors config"
    using assms(4) by (simp add: r)
  have "calculateDirectionalConsistency config c (findNeighbors config c data)
          = \<lparr> consistency = Fin 0, isCoherent = False \<rparr>"
    using few by (simp add: calculateDirectionalConsistency_def)
  then show ?thesis
    using validate_enabled[OF assms(1) refl, of data c] by (simp add: r fin_tiny)
qed

text \<open>
  The sample run with \<open>minimumNeighbors\<close> raised to 4: the one candidate has three
  neighbours.
\<close>

theorem too_few_neighbors_witness:
  "map_sum id (map (\<lambda>r. (neighbors r, directionalConsistency r, isDirectionallyCoherent r,
                          isTrueAnomaly r, confidence r)))
     (runDetection (initialConfig\<lparr>minimumNeighbors := 4\<rparr>) storm)
   = Inr [(3, Some (Fin 0), Some False, False, Fin 0.3)]"
proof -
  let ?config = "initialConfig\<lparr>minimumNeighbors := 4\<rparr>"
  let ?r = "validateCandidate ?config storm stormCandidate"
  have th: "zScoreThreshold ?config = 5 / 2" and sr: "spatialRadius ?config = 1 / 2"
    and en: "enableDirectionalConsistency ?config" and mn: "minimumNeighbors ?config = 4"
    by (simp_all add: initialConfig_def)
  have run: "runDetection ?config storm = Inr [?r]"
    using th by (rule storm_run)
  have n: "neighbors ?r = 3"
    by (simp add: storm_neighbors[OF sr])
  have few: "int (neighbors ?r) < minimumNeighbors ?config"
    unfolding n mn by simp
  have "directionalConsistency ?r = Some (Fin 0) \<and> isDirectionallyCoherent ?r = Some False
         \<and> isTrueAnomaly ?r = False \<and> confidence ?r = Fin 0.3"
    using en run _ few by (rule too_few_neighbors) simp
  then show ?thesis
    unfolding run using n by simp
qed

text \<open>
  Claim C8. With at least the minimum number of neighbours: if the candidate's wind-vector
  magnitude or the neighbours' mean-vector magnitude is exactly zero, the result is
  consistency 0 and not coherent; otherwise the cosine similarity is the dot product
  divided by the product of the two magnitudes, and that divisor is not zero.
\<close>

theorem zero_magnitude_guard:
  assumes "\<not> int (length nbrs) < minimumNeighbors config"
    and "tv = convertWindToVector (ws10m t) (wd10m t)"
    and "mv = meanNeighborVector nbrs"
  shows "(magnitude tv = Fin 0 \<or> magnitude mv = Fin 0 \<longrightarrow>
            calculateDirectionalConsistency config t nbrs = \<lparr> consistency = Fin 0, isCoherent = False \<rparr>)
       \<and> (magnitude tv \<noteq> Fin 0 \<and> magnitude mv \<noteq> Fin 0 \<longrightarrow>
            jmul (magnitude tv) (magnitude mv) \<noteq> Fin 0
            \<and> consistency (calculateDirectionalConsistency config t nbrs)
                = jdiv (dotProduct tv mv) (jmul (magnitude tv) (magnitude mv)))"
  using assms jmul_zero[of "magnitude tv" "magnitude mv"]
  by (auto simp: calculateDirectionalConsistency_def Let_def)

text \<open>
  A calm candidate (wind speed 0) and the sample candidate (wind (3, 0)), each with the
  three sample neighbours (mean wind (2, 0)) and the initial configuration.
\<close>

theorem zero_magnitude_guard_witness:
  "calculateDirectionalConsistency initialConfig (obs 29 79 0 0 10)
      [obs 29.25 79 2 0 0, obs 29 79.25 2 0 0, obs 29.25 79.25 2 0 0]
     = \<lparr> consistency = Fin 0, isCoherent = False \<rparr>
   \<and> consistency (calculateDirectionalConsistency initialConfig stormCandidate
        [obs 29.25 79 2 0 0, obs 29 79.25 2 0 0, obs 29.25 79.25 2 0 0]) = Fin 1"
proof -
  let ?nbrs = "[obs 29.25 79 2 0 0, obs 29 79.25 2 0 0, obs 29.25 79.25 2 0 0]"
  let ?calm = "obs 29 79 0 0 10"
  have m: "\<not> int (length ?nbrs) < minimumNeighbors initialConfig"
    by (simp add: initialConfig_def)
  have mv: "meanNeighborVector ?nbrs = \<lparr> u = Fin 2, v = Fin 0 \<rparr>"
    by (simp add: meanNeighborVector_def convertWindToVector_def obs_def Let_def fin_tiny)
  have calm: "convertWindToVector (ws10m ?calm) (wd10m ?calm) = \<lparr> u = Fin 0, v = Fin 0 \<rparr>"
    by (simp add: convertWindToVector_def obs_def Let_def fin_tiny)
  have cand: "convertWindToVector (ws10m stormCandidate) (wd10m stormCandidate) = \<lparr> u = Fin 3, v = Fin 0 \<rparr>"
    by (simp add: convertWindToVector_def stormCandidate_def obs_def ClimateData.defs
          ScoredPoint.defs Let_def fin_tiny)
  have "calculateDirectionalConsistency initialConfig ?calm ?nbrs
          = \<lparr> consistency = Fin 0, isCoherent = False \<rparr>"
    using zero_magnitude_guard[OF m refl refl, of ?calm]
    unfolding calm mv by (simp add: magnitude_def fin_tiny)
  moreover have "consistency (calculateDirectionalConsistency initialConfig stormCandidate ?nbrs) = Fin 1"
    using zero_magnitude_guard[OF m refl refl, of stormCandidate]
    unfolding cand mv by (simp add: magnitude_def dotProduct_def fin_tiny)
  ultimately show ?thesis by simp
qed

text \<open>
  Claim C9. (i) For two thresholds \<open>t1 \<le> t2\<close> and everything else equal, the screener
  flags at most as many candidates at \<open>t2\<close> as at \<open>t1\<close>. (ii) For two radii
  \<open>r1 \<le> r2\<close> and a fixed target, every neighbour returned at \<open>r1\<close> is
  returned at \<open>r2\<close>, so the neighbour count does not decrease.
\<close>

theorem monotone_threshold_and_radius:
  "(t1 \<le> t2 \<longrightarrow>
      length (filter isOutlier (detectMagnitudeOutliers (config\<lparr>zScoreThreshold := t2\<rparr>) data))
      \<le> length (filter isOutlier (detectMagnitudeOutliers (config\<lparr>zScoreThreshold := t1\<rparr>) data)))
   \<and> (r1 \<le> r2 \<longrightarrow>
      set (findNeighbors (config\<lparr>spatialRadius := r1\<rparr>) t allPoints)
        \<subseteq> set (findNeighbors (config\<lparr>spatialRadius := r2\<rparr>) t allPoints)
      \<and> length (findNeighbors (config\<lparr>spatialRadius := r1\<rparr>) t allPoints)
        \<le> length (findNeighbors (config\<lparr>spatialRadius := r2\<rparr>) t allPoints))"
proof (intro conjI impI)
  assume "t1 \<le> t2"
  then show "length (filter isOutlier (detectMagnitudeOutliers (config\<lparr>zScoreThreshold := t2\<rparr>) data))
      \<le> length (filter isOutlier (detectMagnitudeOutliers (config\<lparr>zScoreThreshold := t1\<rparr>) data))"
    by (rule candidates_shrink)
next
  assume r: "r1 \<le> r2"
  show "set (findNeighbors (config\<lparr>spatialRadius := r1\<rparr>) t allPoints)
        \<subseteq> set (findNeighbors (config\<lparr>spatialRadius := r2\<rparr>) t allPoints)"
    by (subst neighbors_grow[OF r]) auto
  show "length (findNeighbors (config\<lparr>spatialRadius := r1\<rparr>) t allPoints)
        \<le> length (findNeighbors (config\<lparr>spatialRadius := r2\<rparr>) t allPoints)"
    by (subst neighbors_grow[OF r]) (rule length_filter_le)
qed

text \<open>
  On the sample data: thresholds 2.5 and 3.5 (one candidate at 2.5), radii 0.3 and 0.5
  (three neighbours at 0.5).
\<close>

theorem monotone_threshold_and_radius_witness:
  "length (filter isOutlier (detectMagnitudeOutliers (initialConfig\<lparr>zScoreThreshold := 7 / 2\<rparr>) storm))
     \<le> length (filter isOutlier (detectMagnitudeOutliers (initialConfig\<lparr>zScoreThreshold := 5 / 2\<rparr>) storm))
   \<and> length (filter isOutlier (detectMagnitudeOutliers (initialConfig\<lparr>zScoreThreshold := 5 / 2\<rparr>) storm)) = 1
   \<and> set (findNeighbors (initialConfig\<lparr>spatialRadius := 3 / 10\<rparr>) stormCandidate storm)
     \<subseteq> set (findNeighbors (initialConfig\<lparr>spatialRadius := 1 / 2\<rparr>) stormCandidate storm)
   \<and> length (findNeighbors (initialConfig\<lparr>spatialRadius := 3 / 10\<rparr>) stormCandidate storm)
     \<le> length (findNeighbors (initialConfig\<lparr>spatialRadius := 1 / 2\<rparr>) stormCandidate storm)
   \<and> length (findNeighbors (initialConfig\<lparr>spatialRadius := 1 / 2\<rparr>) stormCandidate storm) = 3"
proof -
  have "zScoreThreshold (initialConfig\<lparr>zScoreThreshold := 5 / 2\<rparr>) = 5 / 2"
    and "spatialRadius (initialConfig\<lparr>spatialRadius := 1 / 2\<rparr>) = 1 / 2"
    by simp_all
  then have "length (filter isOutlier (detectMagnitudeOutliers (initialConfig\<lparr>zScoreThreshold := 5 / 2\<rparr>) storm)) = 1"
    and "length (findNeighbors (initialConfig\<lparr>spatialRadius := 1 / 2\<rparr>) stormCandidate storm) = 3"
    by (simp_all only: storm_candidates storm_neighbors list.size)
  then show ?thesis
    using monotone_threshold_and_radius[of "5 / 2" "7 / 2" initialConfig storm "3 / 10" "1 / 2"
        stormCandidate storm]
    by simp
qed

text \<open>
  Claim C10, as amended. With directional-consistency checking disabled the neighbour
  search still runs for each candidate: the \<open>neighbors\<close> field of each result is the
  number of observations whose coordinates differ from the candidate's and whose distance
  to it is at most the configured radius, and \<open>directionalConsistency\<close> and
  \<open>isDirectionallyCoherent\<close> are null.
\<close>

theorem disabled_neighbor_count:
  assumes "\<not> enableDirectionalConsistency config"
    and "runDetection config data = Inr out"
    and "r \<in> set out"
  shows "index r < length data
       \<and> neighbors r =
           length (filter (\<lambda>p. (lat p, lon p) \<noteq> (lat (data ! index r), lon (data ! index r))
                              \<and> jle (distance p (data ! index r)) (Fin (spatialRadius config))) data)
       \<and> directionalConsistency r = None \<and> isDirectionallyCoherent r = None"
proof -
  obtain c where c: "c \<in> set (detectMagnitudeOutliers config data)"
    and r: "r = validateCandidate config data c"
    using assms(2,3) by (rule runDetection_results)
  note dc = detect_coords[OF c]
  have "findNeighbors config c data
        = filter (\<lambda>p. (lat p, lon p) \<noteq> (lat (data ! index c), lon (data ! index c))
                              \<and> jle (distance p (data ! index c)) (Fin (spatialRadius config))) data"
    unfolding findNeighbors_filter
    using dc(2,3) by (simp add: distance_cong[of c "data ! index c"])
  then show ?thesis
    using dc(1) validate_disabled(1,2)[OF assms(1), of data c] by (simp add: r)
qed

text \<open>The sample run with the check disabled.\<close>

theorem disabled_neighbor_count_witness:
  "map_sum id (map (\<lambda>r. (index r, neighbors r, directionalConsistency r, isDirectionallyCoherent r)))
     (runDetection (initialConfig\<lparr>enableDirectionalConsistency := False\<rparr>) storm)
   = Inr [(0, 3, None, None)]"
proof -
  let ?config = "initialConfig\<lparr>enableDirectionalConsistency := False\<rparr>"
  let ?r = "validateCandidate ?config storm stormCandidate"
  have th: "zScoreThreshold ?config = 5 / 2" and sr: "spatialRadius ?config = 1 / 2"
    and en: "\<not> enableDirectionalConsistency ?config"
    by (simp_all add: initialConfig_def)
  have run: "runDetection ?config storm = Inr [?r]"
    using th by (rule storm_run)
  have "index ?r < length storm
       \<and> neighbors ?r =
           length (filter (\<lambda>p. (lat p, lon p) \<noteq> (lat (storm ! index ?r), lon (storm ! index ?r))
                              \<and> jle (distance p (storm ! index ?r)) (Fin (spatialRadius ?config))) storm)
       \<and> directionalConsistency ?r = None \<and> isDirectionallyCoherent ?r = None"
    using en run by (rule disabled_neighbor_count) simp
  moreover have "length (filter (\<lambda>p. (lat p, lon p) \<noteq> (lat (storm ! 0), lon (storm ! 0))
                              \<and> jle (distance p (storm ! 0)) (Fin (1 / 2))) storm) = 3"
    by (simp add: within_radius storm_def obs_def)
  ultimately show ?thesis
    unfolding run sr by simp
qed

text \<open>
  Claim C10 as stated fails where rows share the candidate's coordinates. In the sample
  run with the check disabled the candidate (index 0) gets \<open>neighbors = 3\<close>, while five
  observations lie within the radius of it: itself, the row at the same coordinates and
  the three rows nearby (four when the candidate itself is left out).
\<close>

theorem neighbor_count_counterexample:
  "map_sum id (map neighbors) (runDetection (initialConfig\<lparr>enableDirectionalConsistency := False\<rparr>) storm)
     = Inr [3]
   \<and> length (filter (\<lambda>p. jle (distance p (storm ! 0)) (Fin (spatialRadius initialConfig))) storm) = 5
   \<and> length (filter (\<lambda>p. jle (distance p (storm ! 0)) (Fin (spatialRadius initialConfig))) (tl storm)) = 4"
proof -
  let ?config = "initialConfig\<lparr>enableDirectionalConsistency := False\<rparr>"
  have th: "zScoreThreshold ?config = 5 / 2" and sr: "spatialRadius ?config = 1 / 2"
    by (simp_all add: initialConfig_def)
  have "runDetection ?config storm = Inr [validateCandidate ?config storm stormCandidate]"
    using th by (rule storm_run)
  then have "map_sum id (map neighbors) (runDetection ?config storm) = Inr [3]"
    by (simp add: storm_neighbors[OF sr])
  moreover have "length (filter (\<lambda>p. jle (distance p (storm ! 0)) (Fin (spatialRadius initialConfig))) storm) = 5"
    and "length (filter (\<lambda>p. jle (distance p (storm ! 0)) (Fin (spatialRadius initialConfig))) (tl storm)) = 4"
    by (simp_all add: within_radius storm_def obs_def initialConfig_def)
  ultimately show ?thesis by simp
qed

end
